theory Spec2Isabelle
  imports Main "HOL-Library.AList"
begin

section \<open>Wallet login handlers of \<^verbatim>\<open>backend/internal/handlers/auth.go\<close>\<close>

text \<open>
  The file embeds the three handlers of \<^verbatim>\<open>AuthHandler\<close>: \<^verbatim>\<open>Nonce\<close>, \<^verbatim>\<open>Verify\<close> and
  \<^verbatim>\<open>Me\<close>. A handler is a function of the handler value, the parsed request and the
  state of the storage behind the connection pool; it returns the HTTP response, the
  storage state afterwards and the trace of the calls it made to the packages
  \<^verbatim>\<open>auth\<close>, \<^verbatim>\<open>github\<close> and to the pool, in program order.
  The functions of those packages are not part of the handler file; they are the fields
  of the record \<open>env\<close>, so every theorem about a handler holds for each implementation
  of them. A Go \<^verbatim>\<open>error\<close> is modelled by the text its \<^verbatim>\<open>Error()\<close> method returns, which
  is all the handlers look at.
\<close>

subsection \<open>Responses\<close>

text \<open>
  Modelled from the spec: the \<^verbatim>\<open>User\<close> struct of package \<^verbatim>\<open>auth\<close> is declared outside
  the handler file; the spec gives it an id, a role and a creation time. The handlers
  read \<^verbatim>\<open>ID\<close> and \<^verbatim>\<open>Role\<close> and marshal the whole struct.
\<close>

record user =
  ID :: string
  Role :: string
  CreatedAt :: int

text \<open>
  A \<^verbatim>\<open>fiber.Map\<close> is a Go map from keys to values; it is kept as an association list
  with one entry per key, written in the order of the source and read with \<open>map_of\<close>.
\<close>

datatype json =
    JStr string
  | JTime int
  | JUser user
  | JObj "(string \<times> json) list"

record response =
  status :: nat
  body :: json

abbreviation StatusOK :: nat where "StatusOK \<equiv> 200"
abbreviation StatusBadRequest :: nat where "StatusBadRequest \<equiv> 400"
abbreviation StatusUnauthorized :: nat where "StatusUnauthorized \<equiv> 401"
abbreviation StatusInternalServerError :: nat where "StatusInternalServerError \<equiv> 500"
abbreviation StatusServiceUnavailable :: nat where "StatusServiceUnavailable \<equiv> 503"

text \<open>\<^verbatim>\<open>c.Status(code).JSON(m)\<close>\<close>

definition JSON :: "nat \<Rightarrow> (string \<times> json) list \<Rightarrow> response" where
  "JSON code m = \<lparr>status = code, body = JObj m\<rparr>"

text \<open>\<^verbatim>\<open>c.Status(code).JSON(fiber.Map{"error": e})\<close>\<close>

definition error_response :: "nat \<Rightarrow> string \<Rightarrow> response" where
  "error_response code e = JSON code [(''error'', JStr e)]"

text \<open>Reading a response: the value under a key of the body, and the bearer token.\<close>

fun field :: "string \<Rightarrow> json \<Rightarrow> json option" where
  "field k (JObj m) = map_of m k"
| "field k _ = None"

definition subfield :: "string \<Rightarrow> string \<Rightarrow> json \<Rightarrow> json option" where
  "subfield k k' j = (case field k j of None \<Rightarrow> None | Some obj \<Rightarrow> field k' obj)"

definition token_of :: "response \<Rightarrow> json option" where
  "token_of r = field ''token'' (body r)"

subsection \<open>The handler value and the requests\<close>

record config =
  JWTSecret :: string
  TokenEncKeyB64 :: string

text \<open>
  \<^verbatim>\<open>h.db\<close> is a pointer to a \<^verbatim>\<open>db.DB\<close> whose \<^verbatim>\<open>Pool\<close> is a pointer again; either may be
  nil. The rows behind the pool are the storage state, passed to the handlers apart.
\<close>

datatype pool = PgxPool

record DB =
  Pool :: "pool option"

record AuthHandler =
  cfg :: config
  db :: "DB option"

text \<open>\<^verbatim>\<open>h.db == nil || h.db.Pool == nil\<close>\<close>

definition db_nil :: "AuthHandler \<Rightarrow> bool" where
  "db_nil h = (case db h of None \<Rightarrow> True | Some d \<Rightarrow> Pool d = None)"

record nonceRequest =
  nr_WalletType :: string
  nr_Address :: string

record verifyRequest =
  WalletType :: string
  Address :: string
  Nonce :: string
  Signature :: string
  PublicKey :: string

subsection \<open>What the handlers call\<close>

text \<open>The result structs of package \<^verbatim>\<open>auth\<close>, with the fields the handlers read.\<close>

record nonce =
  n_Nonce :: string
  n_ExpiresAt :: int

record wallet =
  w_WalletType :: string
  w_Address :: string

record upsert_result =
  User :: user
  Wallet :: wallet

record linked_account =
  AccessToken :: string

record gh_user =
  Login :: string
  AvatarURL :: string
  Name :: string
  Email :: string
  Location :: string
  Bio :: string
  Blog :: string

text \<open>\<^verbatim>\<open>time.Minute\<close>, a \<^verbatim>\<open>time.Duration\<close> in nanoseconds.\<close>

abbreviation Minute :: int where "Minute \<equiv> 60000000000"

text \<open>
  The functions the handlers call, in the order of their first use. A function that
  returns \<^verbatim>\<open>(value, error)\<close> returns a sum, \<open>Inl\<close> the error; \<^verbatim>\<open>VerifySignature\<close> returns
  only an error, \<open>None\<close> for nil. The functions given the pool take the storage state;
  those that write return the new one. \<open>QueryGithubAccount\<close> is the
  \<^verbatim>\<open>SELECT login, avatar_url FROM github_accounts WHERE user_id = $1\<close> of \<^verbatim>\<open>Me\<close> with its
  \<^verbatim>\<open>Scan\<close> into two nil string pointers, whose error the handler drops: the result is
  the two pointers after the scan.
\<close>

record 'db env =
  NormalizeWalletType :: "string \<Rightarrow> string + string"
  NormalizeAddress :: "string \<Rightarrow> string \<Rightarrow> string + string"
  CreateNonce :: "'db \<Rightarrow> string \<Rightarrow> string \<Rightarrow> int \<Rightarrow> (string + nonce) \<times> 'db"
  LoginMessage :: "string \<Rightarrow> string"
  LegacyLoginMessage :: "string \<Rightarrow> string"
  VerifySignature :: "string \<Rightarrow> string \<Rightarrow> string \<Rightarrow> string \<Rightarrow> string \<Rightarrow> string option"
  ConsumeNonceAndUpsertUser ::
    "'db \<Rightarrow> string \<Rightarrow> string \<Rightarrow> string \<Rightarrow> string \<Rightarrow> (string + upsert_result) \<times> 'db"
  IssueJWT :: "string \<Rightarrow> string \<Rightarrow> string \<Rightarrow> string \<Rightarrow> string \<Rightarrow> int \<Rightarrow> string + string"
  uuid_Parse :: "string \<Rightarrow> string option"
  GetLinkedAccount :: "'db \<Rightarrow> string \<Rightarrow> string \<Rightarrow> string + linked_account"
  GetUser :: "string \<Rightarrow> string + gh_user"
  QueryGithubAccount :: "'db \<Rightarrow> string \<Rightarrow> string option \<times> string option"

text \<open>
  The trace: one entry per call, with the arguments of the call. It records the calls
  that are given the pool or the request context, the signature checks and the signing
  of the token. \<^verbatim>\<open>NormalizeWalletType\<close>, \<^verbatim>\<open>NormalizeAddress\<close>, the two message
  renderings and \<^verbatim>\<open>uuid.Parse\<close> are functions of their string arguments alone and
  leave no entry.
\<close>

datatype call =
    Call_CreateNonce string string int
  | Call_VerifySignature string string string string string
  | Call_ConsumeNonceAndUpsertUser string string string string
  | Call_IssueJWT string string string string string int
  | Call_GetLinkedAccount string string
  | Call_GetUser string
  | Call_QueryRow string

text \<open>The calls that are given the pool.\<close>

fun storage_call :: "call \<Rightarrow> bool" where
  "storage_call (Call_CreateNonce _ _ _) = True"
| "storage_call (Call_ConsumeNonceAndUpsertUser _ _ _ _) = True"
| "storage_call (Call_GetLinkedAccount _ _) = True"
| "storage_call (Call_QueryRow _) = True"
| "storage_call _ = False"

fun consume_call :: "call \<Rightarrow> bool" where
  "consume_call (Call_ConsumeNonceAndUpsertUser _ _ _ _) = True"
| "consume_call _ = False"

fun issue_call :: "call \<Rightarrow> bool" where
  "issue_call (Call_IssueJWT _ _ _ _ _ _) = True"
| "issue_call _ = False"

fun verify_call :: "call \<Rightarrow> bool" where
  "verify_call (Call_VerifySignature _ _ _ _ _) = True"
| "verify_call _ = False"

subsection \<open>\<^verbatim>\<open>Nonce\<close>\<close>

definition Nonce_handler ::
  "'db env \<Rightarrow> AuthHandler \<Rightarrow> nonceRequest option \<Rightarrow> 'db \<Rightarrow> response \<times> 'db \<times> call list"
where
  "Nonce_handler e h parsed st =
    (if db_nil h then
       (error_response StatusServiceUnavailable ''db_not_configured'', st, [])
     else case parsed of
       None \<Rightarrow> (error_response StatusBadRequest ''invalid_json'', st, [])
     | Some req \<Rightarrow>
        (case NormalizeWalletType e (nr_WalletType req) of
           Inl err \<Rightarrow> (error_response StatusBadRequest ''invalid_wallet_type'', st, [])
         | Inr wType \<Rightarrow>
            (case NormalizeAddress e wType (nr_Address req) of
               Inl err \<Rightarrow> (error_response StatusBadRequest ''invalid_address'', st, [])
             | Inr addr \<Rightarrow>
                (case CreateNonce e st wType addr (10 * Minute) of
                   (Inl err, st') \<Rightarrow>
                     (error_response StatusInternalServerError ''nonce_create_failed'', st',
                      [Call_CreateNonce wType addr (10 * Minute)])
                 | (Inr n, st') \<Rightarrow>
                     (JSON StatusOK
                        [(''nonce'', JStr (n_Nonce n)),
                         (''message'', JStr (LoginMessage e (n_Nonce n))),
                         (''expires_at'', JTime (n_ExpiresAt n))],
                      st', [Call_CreateNonce wType addr (10 * Minute)])))))"

subsection \<open>\<^verbatim>\<open>Verify\<close>\<close>

text \<open>The slice \<^verbatim>\<open>msgs\<close>: the current canonical message, then the legacy one.\<close>

definition msgs :: "'db env \<Rightarrow> verifyRequest \<Rightarrow> string list" where
  "msgs e req = [LoginMessage e (Nonce req), LegacyLoginMessage e (Nonce req)]"

text \<open>
  The loop over \<^verbatim>\<open>msgs\<close>: it sets \<^verbatim>\<open>sigOK\<close> and breaks at the first message for which
  \<^verbatim>\<open>VerifySignature\<close> returns nil. The result is \<^verbatim>\<open>sigOK\<close> and the calls made.
\<close>

fun sig_loop ::
  "'db env \<Rightarrow> string \<Rightarrow> string \<Rightarrow> string \<Rightarrow> string \<Rightarrow> string list \<Rightarrow> bool \<times> call list"
where
  "sig_loop e wType addr sg pk [] = (False, [])"
| "sig_loop e wType addr sg pk (msg # rest) =
    (if VerifySignature e wType addr msg sg pk = None then
       (True, [Call_VerifySignature wType addr msg sg pk])
     else
       (case sig_loop e wType addr sg pk rest of
          (ok, cs) \<Rightarrow> (ok, Call_VerifySignature wType addr msg sg pk # cs)))"

text \<open>The test of the loop, \<^verbatim>\<open>err == nil\<close>, for the signature of a request over a message.\<close>

abbreviation accepted :: "'db env \<Rightarrow> string \<Rightarrow> string \<Rightarrow> verifyRequest \<Rightarrow> string \<Rightarrow> bool" where
  "accepted e wType addr req msg \<equiv>
     VerifySignature e wType addr msg (Signature req) (PublicKey req) = None"

definition Verify ::
  "'db env \<Rightarrow> AuthHandler \<Rightarrow> verifyRequest option \<Rightarrow> 'db \<Rightarrow> response \<times> 'db \<times> call list"
where
  "Verify e h parsed st =
    (if db_nil h then
       (error_response StatusServiceUnavailable ''db_not_configured'', st, [])
     else if JWTSecret (cfg h) = [] then
       (error_response StatusServiceUnavailable ''jwt_not_configured'', st, [])
     else case parsed of
       None \<Rightarrow> (error_response StatusBadRequest ''invalid_json'', st, [])
     | Some req \<Rightarrow>
        (case NormalizeWalletType e (WalletType req) of
           Inl err \<Rightarrow> (error_response StatusBadRequest ''invalid_wallet_type'', st, [])
         | Inr wType \<Rightarrow>
            (case NormalizeAddress e wType (Address req) of
               Inl err \<Rightarrow> (error_response StatusBadRequest ''invalid_address'', st, [])
             | Inr addr \<Rightarrow>
                if Nonce req = [] \<or> Signature req = [] then
                  (error_response StatusBadRequest ''missing_nonce_or_signature'', st, [])
                else
                  (case sig_loop e wType addr (Signature req) (PublicKey req) (msgs e req) of
                     (sigOK, vs) \<Rightarrow>
                      if \<not> sigOK then
                        (error_response StatusUnauthorized ''invalid_signature'', st, vs)
                      else
                        (case ConsumeNonceAndUpsertUser e st wType addr (Nonce req)
                                (PublicKey req) of
                           (Inl err, st') \<Rightarrow>
                             (if err = ''invalid_or_expired_nonce'' then
                                error_response StatusUnauthorized ''invalid_or_expired_nonce''
                              else
                                error_response StatusInternalServerError ''auth_failed'',
                              st',
                              vs @ [Call_ConsumeNonceAndUpsertUser wType addr (Nonce req)
                                      (PublicKey req)])
                         | (Inr res, st') \<Rightarrow>
                             (case IssueJWT e (JWTSecret (cfg h)) (ID (User res))
                                     (Role (User res)) (w_WalletType (Wallet res))
                                     (w_Address (Wallet res)) (15 * Minute) of
                                Inl err \<Rightarrow>
                                  error_response StatusInternalServerError ''token_issue_failed''
                              | Inr token \<Rightarrow>
                                  JSON StatusOK
                                    [(''token'', JStr token),
                                     (''user'', JUser (User res)),
                                     (''wallet'',
                                      JObj [(''wallet_type'', JStr (w_WalletType (Wallet res))),
                                            (''address'', JStr (w_Address (Wallet res)))])],
                              st',
                              vs @ [Call_ConsumeNonceAndUpsertUser wType addr (Nonce req)
                                      (PublicKey req),
                                    Call_IssueJWT (JWTSecret (cfg h)) (ID (User res))
                                      (Role (User res)) (w_WalletType (Wallet res))
                                      (w_Address (Wallet res)) (15 * Minute)]))))))"

subsection \<open>\<^verbatim>\<open>Me\<close>\<close>

text \<open>
  \<^verbatim>\<open>c.Locals(key)\<close> returns an \<^verbatim>\<open>interface{}\<close>: nil when the key was never set, else a
  value that is a string or not. \<^verbatim>\<open>s, _ := v.(string)\<close> gives the string, and the empty
  string when the assertion fails.
\<close>

datatype any = AnyString string | AnyOther

record ctx =
  LocalUserID :: "any option"
  LocalRole :: "any option"

fun as_string :: "any option \<Rightarrow> string" where
  "as_string (Some (AnyString s)) = s"
| "as_string _ = []"

text \<open>\<^verbatim>\<open>if v != "" { m[k] = v }\<close>\<close>

definition set_nonempty :: "string \<Rightarrow> string \<Rightarrow> (string \<times> json) list \<Rightarrow> (string \<times> json) list" where
  "set_nonempty k v m = (if v \<noteq> [] then AList.update k (JStr v) m else m)"

text \<open>The map built from the profile the provider returned.\<close>

definition github_profile :: "gh_user \<Rightarrow> (string \<times> json) list" where
  "github_profile ghUser =
    set_nonempty ''website'' (Blog ghUser)
     (set_nonempty ''bio'' (Bio ghUser)
       (set_nonempty ''location'' (Location ghUser)
         (set_nonempty ''email'' (Email ghUser)
           (set_nonempty ''name'' (Name ghUser)
             [(''login'', JStr (Login ghUser)),
              (''avatar_url'', JStr (AvatarURL ghUser))]))))"

text \<open>
  The fallback to the row of \<^verbatim>\<open>github_accounts\<close>. The source has this block twice, word
  for word: where the provider call failed and where no account is linked.
\<close>

definition cached_profile ::
  "string option \<times> string option \<Rightarrow> (string \<times> json) list \<Rightarrow> (string \<times> json) list"
where
  "cached_profile row response =
    (case row of (githubLogin, avatarURL) \<Rightarrow>
      (case githubLogin of
         None \<Rightarrow> response
       | Some login \<Rightarrow>
           AList.update ''github''
             (JObj (case avatarURL of
                      None \<Rightarrow> [(''login'', JStr login)]
                    | Some a \<Rightarrow>
                        if a \<noteq> [] then
                          AList.update ''avatar_url'' (JStr a) [(''login'', JStr login)]
                        else [(''login'', JStr login)]))
             response))"

definition Me :: "'db env \<Rightarrow> AuthHandler \<Rightarrow> ctx \<Rightarrow> 'db \<Rightarrow> response \<times> call list" where
  "Me e h c st =
    (if db_nil h then
       (error_response StatusServiceUnavailable ''db_not_configured'', [])
     else
       (let userIDStr = as_string (LocalUserID c);
            role = as_string (LocalRole c)
        in (case uuid_Parse e userIDStr of
              None \<Rightarrow> (error_response StatusUnauthorized ''invalid_user'', [])
            | Some userID \<Rightarrow>
               (let response = [(''id'', JStr userIDStr), (''role'', JStr role)]
                in (case GetLinkedAccount e st userID (TokenEncKeyB64 (cfg h)) of
                      Inr linkedAccount \<Rightarrow>
                        (case GetUser e (AccessToken linkedAccount) of
                           Inr ghUser \<Rightarrow>
                             (JSON StatusOK
                                (AList.update ''github'' (JObj (github_profile ghUser))
                                   response),
                              [Call_GetLinkedAccount userID (TokenEncKeyB64 (cfg h)),
                               Call_GetUser (AccessToken linkedAccount)])
                         | Inl err \<Rightarrow>
                             (JSON StatusOK
                                (cached_profile (QueryGithubAccount e st userID) response),
                              [Call_GetLinkedAccount userID (TokenEncKeyB64 (cfg h)),
                               Call_GetUser (AccessToken linkedAccount),
                               Call_QueryRow userID]))
                    | Inl err \<Rightarrow>
                        (JSON StatusOK
                           (cached_profile (QueryGithubAccount e st userID) response),
                         [Call_GetLinkedAccount userID (TokenEncKeyB64 (cfg h)),
                          Call_QueryRow userID]))))))"

section \<open>The consume-and-upsert transaction\<close>

text \<open>
  Modelled from the spec: \<^verbatim>\<open>auth.ConsumeNonceAndUpsertUser\<close> is called by \<^verbatim>\<open>Verify\<close> and
  defined outside the handler file. The definitions of this section follow the spec's
  words on the Nonce, User and WalletLink entities and on the transaction:
  (a) look the nonce up by token and wallet identity and fail with
  \<^verbatim>\<open>invalid_or_expired_nonce\<close> if it is absent, already consumed or past expiry;
  (b) mark it consumed; (c) reuse the user of an existing wallet link, else create a user
  and a link; (d) persist a supplied public key where the wallet type asks for it.
  A storage failure fails the whole transaction and leaves the rows as they were.
\<close>

record nonce_row =
  row_WalletType :: string
  row_Address :: string
  row_CreatedAt :: int
  row_ExpiresAt :: int
  row_Consumed :: bool

record store =
  clock :: int
  unavailable :: bool
  nonces :: "string \<rightharpoonup> nonce_row"
  users :: "user list"
  links :: "string \<times> string \<rightharpoonup> user"
  public_keys :: "string \<times> string \<rightharpoonup> string"

text \<open>
  What the spec leaves open: the id, role and creation time given to the user of a
  wallet seen for the first time, and the wallet types whose public key is kept.
\<close>

record policy =
  new_user :: "store \<Rightarrow> user"
  keeps_public_key :: "string \<Rightarrow> bool"

text \<open>A nonce that the transaction accepts: present for the wallet, unconsumed, unexpired.\<close>

definition live :: "store \<Rightarrow> string \<Rightarrow> string \<Rightarrow> string \<Rightarrow> bool" where
  "live st wType addr tok =
    (case nonces st tok of
       None \<Rightarrow> False
     | Some r \<Rightarrow>
         row_WalletType r = wType \<and> row_Address r = addr \<and> \<not> row_Consumed r \<and>
         clock st \<le> row_ExpiresAt r)"

definition consumed :: "store \<Rightarrow> string \<Rightarrow> bool" where
  "consumed st tok = (case nonces st tok of None \<Rightarrow> False | Some r \<Rightarrow> row_Consumed r)"

definition mark_consumed :: "string \<Rightarrow> store \<Rightarrow> store" where
  "mark_consumed tok st =
    (case nonces st tok of
       None \<Rightarrow> st
     | Some r \<Rightarrow> st\<lparr>nonces := (nonces st)(tok \<mapsto> r\<lparr>row_Consumed := True\<rparr>)\<rparr>)"

definition keep_public_key :: "policy \<Rightarrow> string \<Rightarrow> string \<Rightarrow> string \<Rightarrow> store \<Rightarrow> store" where
  "keep_public_key pol wType addr pk st =
    (if pk \<noteq> [] \<and> keeps_public_key pol wType then
       st\<lparr>public_keys := (public_keys st)((wType, addr) \<mapsto> pk)\<rparr>
     else st)"

definition ConsumeNonceAndUpsertUser_spec ::
  "policy \<Rightarrow> store \<Rightarrow> string \<Rightarrow> string \<Rightarrow> string \<Rightarrow> string \<Rightarrow> (string + upsert_result) \<times> store"
where
  "ConsumeNonceAndUpsertUser_spec pol st wType addr tok pk =
    (if unavailable st then (Inl ''storage_unavailable'', st)
     else if \<not> live st wType addr tok then (Inl ''invalid_or_expired_nonce'', st)
     else
       (let st1 = mark_consumed tok st;
            w = \<lparr>w_WalletType = wType, w_Address = addr\<rparr>
        in (case links st1 (wType, addr) of
              Some u \<Rightarrow>
                (Inr \<lparr>User = u, Wallet = w\<rparr>, keep_public_key pol wType addr pk st1)
            | None \<Rightarrow>
                (let u = new_user pol st1;
                     st2 = st1\<lparr>users := users st1 @ [u],
                               links := (links st1)((wType, addr) \<mapsto> u)\<rparr>
                 in (Inr \<lparr>User = u, Wallet = w\<rparr>,
                     keep_public_key pol wType addr pk st2)))))"

text \<open>
  What happens between two login attempts: other attempts, by any client and through any
  handler value, and the passing of time or an outage of the storage.
\<close>

datatype event =
    Attempt AuthHandler "verifyRequest option"
  | Clock int
  | Outage bool

fun step :: "store env \<Rightarrow> event \<Rightarrow> store \<Rightarrow> store" where
  "step e (Attempt h parsed) st = fst (snd (Verify e h parsed st))"
| "step e (Clock t) st = st\<lparr>clock := t\<rparr>"
| "step e (Outage b) st = st\<lparr>unavailable := b\<rparr>"

fun run :: "store env \<Rightarrow> event list \<Rightarrow> store \<Rightarrow> store" where
  "run e [] st = st"
| "run e (ev # evs) st = run e evs (step e ev st)"

section \<open>A test double of the packages\<close>

text \<open>
  One implementation of \<open>env\<close>, small enough to run the handlers on concrete requests:
  the wallet type \<^verbatim>\<open>evm\<close> in two spellings, any non-empty address, a signature that is
  the signed message behind a prefix, and the transaction of the previous section.
\<close>

definition test_policy :: policy where
  "test_policy =
    \<lparr>new_user = (\<lambda>st. \<lparr>ID = ''u1'', Role = ''contributor'', CreatedAt = clock st\<rparr>),
     keeps_public_key = (\<lambda>wType. False)\<rparr>"

definition test_env :: "store env" where
  "test_env =
    \<lparr>NormalizeWalletType =
       (\<lambda>raw. if raw = ''evm'' \<or> raw = ''EVM'' then Inr ''evm'' else Inl ''invalid_wallet_type''),
     NormalizeAddress = (\<lambda>wType raw. if raw = [] then Inl ''invalid_address'' else Inr raw),
     CreateNonce =
       (\<lambda>st wType addr ttl. (Inr \<lparr>n_Nonce = ''n7'', n_ExpiresAt = clock st + ttl\<rparr>, st)),
     LoginMessage = (\<lambda>n. ''login '' @ n),
     LegacyLoginMessage = (\<lambda>n. ''legacy '' @ n),
     VerifySignature =
       (\<lambda>wType addr msg sg pk. if sg = ''sig '' @ msg then None else Some ''invalid_signature''),
     ConsumeNonceAndUpsertUser = ConsumeNonceAndUpsertUser_spec test_policy,
     IssueJWT = (\<lambda>secret uid role wType addr ttl. Inr (''jwt '' @ uid)),
     uuid_Parse = (\<lambda>s. if s = [] then None else Some s),
     GetLinkedAccount =
       (\<lambda>st uid key. if key = [] then Inl ''decrypt_failed''
                      else Inr \<lparr>AccessToken = ''gho''\<rparr>),
     GetUser =
       (\<lambda>tok. if tok = ''gho'' then
                 Inr \<lparr>Login = ''octo'', AvatarURL = ''a.png'', Name = ''Octo'', Email = [],
                      Location = [], Bio = ''bio'', Blog = []\<rparr>
               else Inl ''upstream_unavailable''),
     QueryGithubAccount = (\<lambda>st uid. (Some ''octo'', Some []))\<rparr>"

definition test_handler :: AuthHandler where
  "test_handler =
    \<lparr>cfg = \<lparr>JWTSecret = ''s3cret'', TokenEncKeyB64 = []\<rparr>,
     db = Some \<lparr>Pool = Some PgxPool\<rparr>\<rparr>"

definition test_request :: verifyRequest where
  "test_request =
    \<lparr>WalletType = ''EVM'', Address = ''0xab'', Nonce = ''n7'',
     Signature = ''sig legacy n7'', PublicKey = []\<rparr>"

definition linked_handler :: AuthHandler where
  "linked_handler =
    \<lparr>cfg = \<lparr>JWTSecret = ''s3cret'', TokenEncKeyB64 = ''a2V5''\<rparr>,
     db = Some \<lparr>Pool = Some PgxPool\<rparr>\<rparr>"

definition test_ctx :: ctx where
  "test_ctx = \<lparr>LocalUserID = Some (AnyString ''u1''), LocalRole = Some (AnyString ''admin'')\<rparr>"

definition test_store :: store where
  "test_store =
    \<lparr>clock = 100, unavailable = False,
     nonces = [''n7'' \<mapsto> \<lparr>row_WalletType = ''evm'', row_Address = ''0xab'',
                            row_CreatedAt = 90, row_ExpiresAt = 690, row_Consumed = False\<rparr>],
     users = [], links = Map.empty, public_keys = Map.empty\<rparr>"

section \<open>Properties of \<^verbatim>\<open>Verify\<close>\<close>

subsection \<open>The signature loop\<close>

lemma sig_loop_msgs:
  "sig_loop e w a s pk (msgs e req) =
    (if VerifySignature e w a (LoginMessage e (Nonce req)) s pk = None then
       (True, [Call_VerifySignature w a (LoginMessage e (Nonce req)) s pk])
     else
       (VerifySignature e w a (LegacyLoginMessage e (Nonce req)) s pk = None,
        [Call_VerifySignature w a (LoginMessage e (Nonce req)) s pk,
         Call_VerifySignature w a (LegacyLoginMessage e (Nonce req)) s pk]))"
  by (simp add: msgs_def)

lemma sig_loop_only_verifies:
  "\<not> list_ex consume_call (snd (sig_loop e w a s pk ms))"
  "\<not> list_ex issue_call (snd (sig_loop e w a s pk ms))"
  "\<not> list_ex storage_call (snd (sig_loop e w a s pk ms))"
  by (induction ms) (auto split: prod.splits)

text \<open>
  \<^verbatim>\<open>Verify\<close> from the loop on: what is left of the handler once the handler value, the
  body, the wallet type, the address and the two required fields have passed.
\<close>

lemma Verify_checked:
  assumes "\<not> db_nil h" and "JWTSecret (cfg h) \<noteq> []"
    and "NormalizeWalletType e (WalletType req) = Inr wType"
    and "NormalizeAddress e wType (Address req) = Inr addr"
    and "Nonce req \<noteq> []" and "Signature req \<noteq> []"
  shows "Verify e h (Some req) st =
    (case sig_loop e wType addr (Signature req) (PublicKey req) (msgs e req) of
       (sigOK, vs) \<Rightarrow>
         if \<not> sigOK then (error_response StatusUnauthorized ''invalid_signature'', st, vs)
         else
           (case ConsumeNonceAndUpsertUser e st wType addr (Nonce req) (PublicKey req) of
              (Inl err, st') \<Rightarrow>
                (if err = ''invalid_or_expired_nonce'' then
                   error_response StatusUnauthorized ''invalid_or_expired_nonce''
                 else error_response StatusInternalServerError ''auth_failed'',
                 st',
                 vs @ [Call_ConsumeNonceAndUpsertUser wType addr (Nonce req) (PublicKey req)])
            | (Inr res, st') \<Rightarrow>
                (case IssueJWT e (JWTSecret (cfg h)) (ID (User res)) (Role (User res))
                        (w_WalletType (Wallet res)) (w_Address (Wallet res)) (15 * Minute) of
                   Inl err \<Rightarrow> error_response StatusInternalServerError ''token_issue_failed''
                 | Inr token \<Rightarrow>
                     JSON StatusOK
                       [(''token'', JStr token),
                        (''user'', JUser (User res)),
                        (''wallet'',
                         JObj [(''wallet_type'', JStr (w_WalletType (Wallet res))),
                               (''address'', JStr (w_Address (Wallet res)))])],
                 st',
                 vs @ [Call_ConsumeNonceAndUpsertUser wType addr (Nonce req) (PublicKey req),
                       Call_IssueJWT (JWTSecret (cfg h)) (ID (User res)) (Role (User res))
                         (w_WalletType (Wallet res)) (w_Address (Wallet res)) (15 * Minute)])))"
  using assms by (simp add: Verify_def)

text \<open>The facts that evaluate the test double on a concrete request.\<close>

lemmas test_defs =
  test_env_def test_policy_def test_handler_def test_request_def test_store_def
  linked_handler_def test_ctx_def subfield_def
  db_nil_def msgs_def error_response_def JSON_def token_of_def Let_def
  ConsumeNonceAndUpsertUser_spec_def live_def consumed_def mark_consumed_def
  keep_public_key_def

text \<open>
  C2. A request that reaches the signature check (handler configured, wallet type and
  address normalized, nonce and signature present) is checked against the slice
  \<^verbatim>\<open>msgs\<close>, which holds exactly the canonical and then the legacy rendering of the login
  message. The signature checks in the trace are the canonical one alone when it
  accepts, else the canonical one followed by the legacy one. The handler goes on to
  the consume step exactly when one of the two renderings accepts, and answers
  \<^verbatim>\<open>invalid_signature\<close> exactly when neither does; so a signature that is valid over some
  third message only is rejected.
\<close>

theorem Verify_two_renderings:
  assumes "\<not> db_nil h" and "JWTSecret (cfg h) \<noteq> []"
    and "NormalizeWalletType e (WalletType req) = Inr wType"
    and "NormalizeAddress e wType (Address req) = Inr addr"
    and "Nonce req \<noteq> []" and "Signature req \<noteq> []"
  shows
    "msgs e req = [LoginMessage e (Nonce req), LegacyLoginMessage e (Nonce req)] \<and>
     filter verify_call (snd (snd (Verify e h (Some req) st))) =
       (if accepted e wType addr req (LoginMessage e (Nonce req))
        then [Call_VerifySignature wType addr (LoginMessage e (Nonce req)) (Signature req)
                (PublicKey req)]
        else [Call_VerifySignature wType addr (LoginMessage e (Nonce req)) (Signature req)
                (PublicKey req),
              Call_VerifySignature wType addr (LegacyLoginMessage e (Nonce req))
                (Signature req) (PublicKey req)]) \<and>
     list_ex consume_call (snd (snd (Verify e h (Some req) st))) =
       (accepted e wType addr req (LoginMessage e (Nonce req)) \<or>
        accepted e wType addr req (LegacyLoginMessage e (Nonce req))) \<and>
     (fst (Verify e h (Some req) st) = error_response StatusUnauthorized ''invalid_signature'') =
       (\<not> accepted e wType addr req (LoginMessage e (Nonce req)) \<and>
        \<not> accepted e wType addr req (LegacyLoginMessage e (Nonce req))) \<and>
     (\<forall>third.
        accepted e wType addr req third \<and>
        \<not> accepted e wType addr req (LoginMessage e (Nonce req)) \<and>
        \<not> accepted e wType addr req (LegacyLoginMessage e (Nonce req)) \<longrightarrow>
        fst (Verify e h (Some req) st) = error_response StatusUnauthorized ''invalid_signature'')"
proof -
  let ?c = "accepted e wType addr req (LoginMessage e (Nonce req))"
  let ?l = "accepted e wType addr req (LegacyLoginMessage e (Nonce req))"
  note V = Verify_checked [OF assms, of st]
  have m: "msgs e req = [LoginMessage e (Nonce req), LegacyLoginMessage e (Nonce req)]"
    by (simp add: msgs_def)
  have tr: "filter verify_call (snd (snd (Verify e h (Some req) st))) =
       (if ?c
        then [Call_VerifySignature wType addr (LoginMessage e (Nonce req)) (Signature req)
                (PublicKey req)]
        else [Call_VerifySignature wType addr (LoginMessage e (Nonce req)) (Signature req)
                (PublicKey req),
              Call_VerifySignature wType addr (LegacyLoginMessage e (Nonce req))
                (Signature req) (PublicKey req)])"
    unfolding V sig_loop_msgs by (simp split: prod.splits sum.splits)
  have cons: "list_ex consume_call (snd (snd (Verify e h (Some req) st))) = (?c \<or> ?l)"
    unfolding V sig_loop_msgs by (simp split: prod.splits sum.splits)
  have rej:
    "(fst (Verify e h (Some req) st) = error_response StatusUnauthorized ''invalid_signature'')
      = (\<not> ?c \<and> \<not> ?l)"
    unfolding V sig_loop_msgs
    by (simp add: error_response_def JSON_def split: prod.splits sum.splits)
  from m tr cons rej show ?thesis by blast
qed

theorem Verify_two_renderings_witness:
  "\<not> db_nil test_handler \<and> JWTSecret (cfg test_handler) \<noteq> [] \<and>
   NormalizeWalletType test_env (WalletType test_request) = Inr ''evm'' \<and>
   NormalizeAddress test_env ''evm'' (Address test_request) = Inr ''0xab'' \<and>
   Nonce test_request \<noteq> [] \<and> Signature test_request \<noteq> [] \<and>
   filter verify_call (snd (snd (Verify test_env test_handler (Some test_request) test_store))) =
     [Call_VerifySignature ''evm'' ''0xab'' ''login n7'' ''sig legacy n7'' [],
      Call_VerifySignature ''evm'' ''0xab'' ''legacy n7'' ''sig legacy n7'' []] \<and>
   list_ex consume_call (snd (snd (Verify test_env test_handler (Some test_request) test_store))) \<and>
   fst (Verify test_env test_handler (Some test_request) test_store) \<noteq>
     error_response StatusUnauthorized ''invalid_signature''"
proof -
  have h1: "\<not> db_nil test_handler" and h2: "JWTSecret (cfg test_handler) \<noteq> []"
    and h3: "NormalizeWalletType test_env (WalletType test_request) = Inr ''evm''"
    and h4: "NormalizeAddress test_env ''evm'' (Address test_request) = Inr ''0xab''"
    and h5: "Nonce test_request \<noteq> []" and h6: "Signature test_request \<noteq> []"
    by (simp_all add: test_defs)
  have a: "\<not> accepted test_env ''evm'' ''0xab'' test_request
              (LoginMessage test_env (Nonce test_request))"
    and b: "accepted test_env ''evm'' ''0xab'' test_request
              (LegacyLoginMessage test_env (Nonce test_request))"
    and c: "LoginMessage test_env (Nonce test_request) = ''login n7''"
    and d: "LegacyLoginMessage test_env (Nonce test_request) = ''legacy n7''"
    and f: "Signature test_request = ''sig legacy n7''" "PublicKey test_request = []"
    by (simp_all add: test_defs)
  show ?thesis
    using Verify_two_renderings [OF h1 h2 h3 h4 h5 h6, of test_store] h1 h2 h3 h4 h5 h6 a b
    unfolding c d f by simp
qed

text \<open>
  C3. When the signature of a request that reaches the check is accepted over neither
  rendering, the handler answers 401 \<^verbatim>\<open>invalid_signature\<close>, the storage state is the one
  it started from, and the trace holds the two signature checks and nothing else: the
  consume-and-upsert transaction is not called, no other storage call is made and no
  token is signed or returned.
\<close>

theorem Verify_invalid_signature:
  assumes "\<not> db_nil h" and "JWTSecret (cfg h) \<noteq> []"
    and "NormalizeWalletType e (WalletType req) = Inr wType"
    and "NormalizeAddress e wType (Address req) = Inr addr"
    and "Nonce req \<noteq> []" and "Signature req \<noteq> []"
    and "\<not> accepted e wType addr req (LoginMessage e (Nonce req))"
    and "\<not> accepted e wType addr req (LegacyLoginMessage e (Nonce req))"
  shows
    "Verify e h (Some req) st =
       (error_response StatusUnauthorized ''invalid_signature'', st,
        [Call_VerifySignature wType addr (LoginMessage e (Nonce req)) (Signature req)
           (PublicKey req),
         Call_VerifySignature wType addr (LegacyLoginMessage e (Nonce req)) (Signature req)
           (PublicKey req)]) \<and>
     \<not> list_ex consume_call (snd (snd (Verify e h (Some req) st))) \<and>
     \<not> list_ex storage_call (snd (snd (Verify e h (Some req) st))) \<and>
     \<not> list_ex issue_call (snd (snd (Verify e h (Some req) st))) \<and>
     token_of (fst (Verify e h (Some req) st)) = None"
proof -
  have V: "Verify e h (Some req) st =
       (error_response StatusUnauthorized ''invalid_signature'', st,
        [Call_VerifySignature wType addr (LoginMessage e (Nonce req)) (Signature req)
           (PublicKey req),
         Call_VerifySignature wType addr (LegacyLoginMessage e (Nonce req)) (Signature req)
           (PublicKey req)])"
    unfolding Verify_checked [OF assms(1-6)] sig_loop_msgs
    using assms(7,8) by (simp del: not_None_eq)
  show ?thesis
    unfolding V by (simp add: token_of_def error_response_def JSON_def)
qed

theorem Verify_invalid_signature_witness:
  "\<not> db_nil test_handler \<and> JWTSecret (cfg test_handler) \<noteq> [] \<and>
   NormalizeWalletType test_env (WalletType (test_request\<lparr>Signature := ''forged''\<rparr>)) =
     Inr ''evm'' \<and>
   NormalizeAddress test_env ''evm'' (Address (test_request\<lparr>Signature := ''forged''\<rparr>)) =
     Inr ''0xab'' \<and>
   Nonce (test_request\<lparr>Signature := ''forged''\<rparr>) \<noteq> [] \<and>
   Signature (test_request\<lparr>Signature := ''forged''\<rparr>) \<noteq> [] \<and>
   \<not> accepted test_env ''evm'' ''0xab'' (test_request\<lparr>Signature := ''forged''\<rparr>) ''login n7'' \<and>
   \<not> accepted test_env ''evm'' ''0xab'' (test_request\<lparr>Signature := ''forged''\<rparr>) ''legacy n7'' \<and>
   Verify test_env test_handler (Some (test_request\<lparr>Signature := ''forged''\<rparr>)) test_store =
     (error_response StatusUnauthorized ''invalid_signature'', test_store,
      [Call_VerifySignature ''evm'' ''0xab'' ''login n7'' ''forged'' [],
       Call_VerifySignature ''evm'' ''0xab'' ''legacy n7'' ''forged'' []])"
proof -
  let ?r = "test_request\<lparr>Signature := ''forged''\<rparr>"
  have h1: "\<not> db_nil test_handler" and h2: "JWTSecret (cfg test_handler) \<noteq> []"
    and h3: "NormalizeWalletType test_env (WalletType ?r) = Inr ''evm''"
    and h4: "NormalizeAddress test_env ''evm'' (Address ?r) = Inr ''0xab''"
    and h5: "Nonce ?r \<noteq> []" and h6: "Signature ?r \<noteq> []"
    and h7: "\<not> accepted test_env ''evm'' ''0xab'' ?r (LoginMessage test_env (Nonce ?r))"
    and h8: "\<not> accepted test_env ''evm'' ''0xab'' ?r (LegacyLoginMessage test_env (Nonce ?r))"
    by (simp_all add: test_defs)
  have c: "LoginMessage test_env (Nonce ?r) = ''login n7''"
    and d: "LegacyLoginMessage test_env (Nonce ?r) = ''legacy n7''"
    and f: "Signature ?r = ''forged''" "PublicKey ?r = []"
    by (simp_all add: test_defs)
  show ?thesis
    using Verify_invalid_signature [OF h1 h2 h3 h4 h5 h6 h7 h8, of test_store]
      h1 h2 h3 h4 h5 h6 h7 h8
    unfolding c d f by simp
qed

text \<open>
  C4. A request whose wallet type does not normalize, whose address does not normalize,
  or (for \<^verbatim>\<open>Verify\<close>) whose nonce or signature is empty leaves the storage state as it
  was and makes no traced call at all, whatever the handler value is. Where the
  handler's own guards pass (the pool is set and, for \<^verbatim>\<open>Verify\<close>, the JWT secret is not
  empty), the answer is 400 with the code of the first check that fails:
  \<^verbatim>\<open>invalid_wallet_type\<close>, then \<^verbatim>\<open>invalid_address\<close>, then \<^verbatim>\<open>missing_nonce_or_signature\<close>.
\<close>

theorem validation_before_storage:
  "(NormalizeWalletType e (nr_WalletType nreq) = Inl err \<longrightarrow>
      snd (Nonce_handler e h (Some nreq) st) = (st, []) \<and>
      (\<not> db_nil h \<longrightarrow>
         fst (Nonce_handler e h (Some nreq) st) =
           error_response StatusBadRequest ''invalid_wallet_type'')) \<and>
   (NormalizeWalletType e (nr_WalletType nreq) = Inr wType \<and>
    NormalizeAddress e wType (nr_Address nreq) = Inl err \<longrightarrow>
      snd (Nonce_handler e h (Some nreq) st) = (st, []) \<and>
      (\<not> db_nil h \<longrightarrow>
         fst (Nonce_handler e h (Some nreq) st) =
           error_response StatusBadRequest ''invalid_address'')) \<and>
   (NormalizeWalletType e (WalletType req) = Inl err \<longrightarrow>
      snd (Verify e h (Some req) st) = (st, []) \<and>
      (\<not> db_nil h \<and> JWTSecret (cfg h) \<noteq> [] \<longrightarrow>
         fst (Verify e h (Some req) st) =
           error_response StatusBadRequest ''invalid_wallet_type'')) \<and>
   (NormalizeWalletType e (WalletType req) = Inr wType \<and>
    NormalizeAddress e wType (Address req) = Inl err \<longrightarrow>
      snd (Verify e h (Some req) st) = (st, []) \<and>
      (\<not> db_nil h \<and> JWTSecret (cfg h) \<noteq> [] \<longrightarrow>
         fst (Verify e h (Some req) st) =
           error_response StatusBadRequest ''invalid_address'')) \<and>
   (NormalizeWalletType e (WalletType req) = Inr wType \<and>
    NormalizeAddress e wType (Address req) = Inr addr \<and>
    (Nonce req = [] \<or> Signature req = []) \<longrightarrow>
      snd (Verify e h (Some req) st) = (st, []) \<and>
      (\<not> db_nil h \<and> JWTSecret (cfg h) \<noteq> [] \<longrightarrow>
         fst (Verify e h (Some req) st) =
           error_response StatusBadRequest ''missing_nonce_or_signature''))"
proof (intro conjI impI)
  assume "NormalizeWalletType e (nr_WalletType nreq) = Inl err"
  then show "snd (Nonce_handler e h (Some nreq) st) = (st, [])"
    by (simp add: Nonce_handler_def)
next
  assume "NormalizeWalletType e (nr_WalletType nreq) = Inl err" and "\<not> db_nil h"
  then show "fst (Nonce_handler e h (Some nreq) st) =
      error_response StatusBadRequest ''invalid_wallet_type''"
    by (simp add: Nonce_handler_def)
next
  assume "NormalizeWalletType e (nr_WalletType nreq) = Inr wType \<and>
    NormalizeAddress e wType (nr_Address nreq) = Inl err"
  then show "snd (Nonce_handler e h (Some nreq) st) = (st, [])"
    by (simp add: Nonce_handler_def)
next
  assume "NormalizeWalletType e (nr_WalletType nreq) = Inr wType \<and>
    NormalizeAddress e wType (nr_Address nreq) = Inl err" and "\<not> db_nil h"
  then show "fst (Nonce_handler e h (Some nreq) st) =
      error_response StatusBadRequest ''invalid_address''"
    by (simp add: Nonce_handler_def)
next
  assume "NormalizeWalletType e (WalletType req) = Inl err"
  then show "snd (Verify e h (Some req) st) = (st, [])"
    by (simp add: Verify_def)
next
  assume "NormalizeWalletType e (WalletType req) = Inl err"
    and "\<not> db_nil h \<and> JWTSecret (cfg h) \<noteq> []"
  then show "fst (Verify e h (Some req) st) =
      error_response StatusBadRequest ''invalid_wallet_type''"
    by (simp add: Verify_def)
next
  assume "NormalizeWalletType e (WalletType req) = Inr wType \<and>
    NormalizeAddress e wType (Address req) = Inl err"
  then show "snd (Verify e h (Some req) st) = (st, [])"
    by (simp add: Verify_def)
next
  assume "NormalizeWalletType e (WalletType req) = Inr wType \<and>
    NormalizeAddress e wType (Address req) = Inl err"
    and "\<not> db_nil h \<and> JWTSecret (cfg h) \<noteq> []"
  then show "fst (Verify e h (Some req) st) =
      error_response StatusBadRequest ''invalid_address''"
    by (simp add: Verify_def)
next
  assume "NormalizeWalletType e (WalletType req) = Inr wType \<and>
    NormalizeAddress e wType (Address req) = Inr addr \<and>
    (Nonce req = [] \<or> Signature req = [])"
  then show "snd (Verify e h (Some req) st) = (st, [])"
    by (auto simp add: Verify_def)
next
  assume "NormalizeWalletType e (WalletType req) = Inr wType \<and>
    NormalizeAddress e wType (Address req) = Inr addr \<and>
    (Nonce req = [] \<or> Signature req = [])"
    and "\<not> db_nil h \<and> JWTSecret (cfg h) \<noteq> []"
  then show "fst (Verify e h (Some req) st) =
      error_response StatusBadRequest ''missing_nonce_or_signature''"
    by (auto simp add: Verify_def)
qed

theorem validation_before_storage_witness:
  "NormalizeWalletType test_env ''btc'' = Inl ''invalid_wallet_type'' \<and>
   Nonce_handler test_env test_handler (Some \<lparr>nr_WalletType = ''btc'', nr_Address = ''0xab''\<rparr>)
       test_store =
     (error_response StatusBadRequest ''invalid_wallet_type'', test_store, []) \<and>
   NormalizeWalletType test_env ''evm'' = Inr ''evm'' \<and>
   NormalizeAddress test_env ''evm'' [] = Inl ''invalid_address'' \<and>
   Nonce_handler test_env test_handler (Some \<lparr>nr_WalletType = ''evm'', nr_Address = []\<rparr>)
       test_store =
     (error_response StatusBadRequest ''invalid_address'', test_store, []) \<and>
   Verify test_env test_handler (Some (test_request\<lparr>WalletType := ''btc''\<rparr>)) test_store =
     (error_response StatusBadRequest ''invalid_wallet_type'', test_store, []) \<and>
   Verify test_env test_handler (Some (test_request\<lparr>Address := []\<rparr>)) test_store =
     (error_response StatusBadRequest ''invalid_address'', test_store, []) \<and>
   NormalizeAddress test_env ''evm'' ''0xab'' = Inr ''0xab'' \<and>
   Signature (test_request\<lparr>Signature := []\<rparr>) = [] \<and>
   Verify test_env test_handler (Some (test_request\<lparr>Signature := []\<rparr>)) test_store =
     (error_response StatusBadRequest ''missing_nonce_or_signature'', test_store, [])"
proof -
  have g: "\<not> db_nil test_handler" "JWTSecret (cfg test_handler) \<noteq> []"
    by (simp_all add: test_defs)
  have n: "NormalizeWalletType test_env ''btc'' = Inl ''invalid_wallet_type''"
      "NormalizeWalletType test_env ''evm'' = Inr ''evm''"
      "NormalizeWalletType test_env ''EVM'' = Inr ''evm''"
      "NormalizeAddress test_env ''evm'' [] = Inl ''invalid_address''"
      "NormalizeAddress test_env ''evm'' ''0xab'' = Inr ''0xab''"
    by (simp_all add: test_defs)
  have r: "WalletType test_request = ''EVM''" "Address test_request = ''0xab''"
    by (simp_all add: test_defs)
  note a = validation_before_storage
    [where e = test_env and h = test_handler and st = test_store
       and nreq = "\<lparr>nr_WalletType = ''btc'', nr_Address = ''0xab''\<rparr>"
       and req = "test_request\<lparr>WalletType := ''btc''\<rparr>"
       and err = "''invalid_wallet_type''"]
  note b = validation_before_storage
    [where e = test_env and h = test_handler and st = test_store
       and nreq = "\<lparr>nr_WalletType = ''evm'', nr_Address = []\<rparr>"
       and req = "test_request\<lparr>Address := []\<rparr>"
       and wType = "''evm''" and err = "''invalid_address''"]
  note c = validation_before_storage
    [where e = test_env and h = test_handler and st = test_store
       and req = "test_request\<lparr>Signature := []\<rparr>"
       and wType = "''evm''" and addr = "''0xab''"]
  show ?thesis
    using a b c g n r by (simp add: prod_eq_iff)
qed

text \<open>
  \<^verbatim>\<open>Verify\<close> after the transaction has returned a user and a wallet link: one token is
  signed, for the fields of that result, and the answer depends on the signing alone.
\<close>

lemma Verify_after_transaction:
  assumes "\<not> db_nil h" and "JWTSecret (cfg h) \<noteq> []"
    and "NormalizeWalletType e (WalletType req) = Inr wType"
    and "NormalizeAddress e wType (Address req) = Inr addr"
    and "Nonce req \<noteq> []" and "Signature req \<noteq> []"
    and "accepted e wType addr req (LoginMessage e (Nonce req)) \<or>
         accepted e wType addr req (LegacyLoginMessage e (Nonce req))"
    and "ConsumeNonceAndUpsertUser e st wType addr (Nonce req) (PublicKey req) = (Inr res, st')"
  shows
    "filter issue_call (snd (snd (Verify e h (Some req) st))) =
       [Call_IssueJWT (JWTSecret (cfg h)) (ID (User res)) (Role (User res))
          (w_WalletType (Wallet res)) (w_Address (Wallet res)) (15 * Minute)]"
    and "fst (snd (Verify e h (Some req) st)) = st'"
    and "fst (Verify e h (Some req) st) =
       (case IssueJWT e (JWTSecret (cfg h)) (ID (User res)) (Role (User res))
               (w_WalletType (Wallet res)) (w_Address (Wallet res)) (15 * Minute) of
          Inl err \<Rightarrow> error_response StatusInternalServerError ''token_issue_failed''
        | Inr token \<Rightarrow>
            JSON StatusOK
              [(''token'', JStr token),
               (''user'', JUser (User res)),
               (''wallet'',
                JObj [(''wallet_type'', JStr (w_WalletType (Wallet res))),
                      (''address'', JStr (w_Address (Wallet res)))])])"
  unfolding Verify_checked [OF assms(1-6)] sig_loop_msgs
  using assms(7,8) by (auto split: sum.splits)

section \<open>Properties of \<^verbatim>\<open>Me\<close>\<close>

lemma Me_fallback:
  assumes "\<not> db_nil h"
    and "uuid_Parse e (as_string (LocalUserID c)) = Some userID"
    and "(\<exists>err. GetLinkedAccount e st userID (TokenEncKeyB64 (cfg h)) = Inl err) \<or>
         (\<exists>linkedAccount err.
            GetLinkedAccount e st userID (TokenEncKeyB64 (cfg h)) = Inr linkedAccount \<and>
            GetUser e (AccessToken linkedAccount) = Inl err)"
  shows "fst (Me e h c st) =
      JSON StatusOK
        (cached_profile (QueryGithubAccount e st userID)
           [(''id'', JStr (as_string (LocalUserID c))),
            (''role'', JStr (as_string (LocalRole c)))])"
  using assms by (auto simp add: Me_def Let_def)

lemma Me_provider:
  assumes "\<not> db_nil h"
    and "uuid_Parse e (as_string (LocalUserID c)) = Some userID"
    and "GetLinkedAccount e st userID (TokenEncKeyB64 (cfg h)) = Inr linkedAccount"
    and "GetUser e (AccessToken linkedAccount) = Inr ghUser"
  shows "fst (Me e h c st) =
      JSON StatusOK
        [(''id'', JStr (as_string (LocalUserID c))),
         (''role'', JStr (as_string (LocalRole c))),
         (''github'', JObj (github_profile ghUser))]"
  using assms by (simp add: Me_def Let_def)

lemma cached_profile_fields:
  "map_of (cached_profile row [(''id'', i), (''role'', r)]) ''id'' = Some i"
  "map_of (cached_profile row [(''id'', i), (''role'', r)]) ''role'' = Some r"
  "map_of (cached_profile row [(''id'', i), (''role'', r)]) ''error'' = None"
  "map_of (cached_profile row [(''id'', i), (''role'', r)]) ''github'' =
     (case row of
        (None, avatarURL) \<Rightarrow> None
      | (Some login, None) \<Rightarrow> Some (JObj [(''login'', JStr login)])
      | (Some login, Some a) \<Rightarrow>
          if a = [] then Some (JObj [(''login'', JStr login)])
          else Some (JObj [(''login'', JStr login), (''avatar_url'', JStr a)]))"
  by (cases row; simp add: cached_profile_def split: option.splits)+

lemma github_profile_fields:
  "map_of (github_profile g) ''login'' = Some (JStr (Login g))"
  "map_of (github_profile g) ''avatar_url'' = Some (JStr (AvatarURL g))"
  "map_of (github_profile g) ''name'' = (if Name g = [] then None else Some (JStr (Name g)))"
  "map_of (github_profile g) ''email'' = (if Email g = [] then None else Some (JStr (Email g)))"
  "map_of (github_profile g) ''location'' =
     (if Location g = [] then None else Some (JStr (Location g)))"
  "map_of (github_profile g) ''bio'' = (if Bio g = [] then None else Some (JStr (Bio g)))"
  "map_of (github_profile g) ''website'' = (if Blog g = [] then None else Some (JStr (Blog g)))"
  by (simp_all add: github_profile_def set_nonempty_def update_conv')

text \<open>
  C8. With the pool set and a user id that parses, a failure of the linked-account
  lookup (whatever its error, a failed decryption included) or of the provider call
  does not fail the request: the answer is 200, it carries the user id and the role of
  the context and no error, the cached row is read, and the \<^verbatim>\<open>github\<close> object is built
  from the cached login and avatar alone.
\<close>

theorem Me_degrades_to_cache:
  assumes "\<not> db_nil h"
    and "uuid_Parse e (as_string (LocalUserID c)) = Some userID"
    and "(\<exists>err. GetLinkedAccount e st userID (TokenEncKeyB64 (cfg h)) = Inl err) \<or>
         (\<exists>linkedAccount err.
            GetLinkedAccount e st userID (TokenEncKeyB64 (cfg h)) = Inr linkedAccount \<and>
            GetUser e (AccessToken linkedAccount) = Inl err)"
  shows
    "status (fst (Me e h c st)) = StatusOK \<and>
     field ''id'' (body (fst (Me e h c st))) = Some (JStr (as_string (LocalUserID c))) \<and>
     field ''role'' (body (fst (Me e h c st))) = Some (JStr (as_string (LocalRole c))) \<and>
     field ''error'' (body (fst (Me e h c st))) = None \<and>
     field ''github'' (body (fst (Me e h c st))) =
       (case QueryGithubAccount e st userID of
          (None, avatarURL) \<Rightarrow> None
        | (Some login, None) \<Rightarrow> Some (JObj [(''login'', JStr login)])
        | (Some login, Some a) \<Rightarrow>
            if a = [] then Some (JObj [(''login'', JStr login)])
            else Some (JObj [(''login'', JStr login), (''avatar_url'', JStr a)])) \<and>
     list_ex (\<lambda>call. call = Call_QueryRow userID) (snd (Me e h c st))"
proof -
  have tr: "list_ex (\<lambda>call. call = Call_QueryRow userID) (snd (Me e h c st))"
    using assms by (auto simp add: Me_def Let_def)
  show ?thesis
    unfolding Me_fallback [OF assms]
    using tr by (simp add: JSON_def cached_profile_fields)
qed

theorem Me_degrades_to_cache_witness:
  "\<not> db_nil test_handler \<and>
   uuid_Parse test_env (as_string (LocalUserID test_ctx)) = Some ''u1'' \<and>
   GetLinkedAccount test_env test_store ''u1'' (TokenEncKeyB64 (cfg test_handler)) =
     Inl ''decrypt_failed'' \<and>
   status (fst (Me test_env test_handler test_ctx test_store)) = StatusOK \<and>
   field ''id'' (body (fst (Me test_env test_handler test_ctx test_store))) =
     Some (JStr ''u1'') \<and>
   field ''role'' (body (fst (Me test_env test_handler test_ctx test_store))) =
     Some (JStr ''admin'') \<and>
   field ''github'' (body (fst (Me test_env test_handler test_ctx test_store))) =
     Some (JObj [(''login'', JStr ''octo'')])"
proof -
  have h1: "\<not> db_nil test_handler"
    and h2: "uuid_Parse test_env (as_string (LocalUserID test_ctx)) = Some ''u1''"
    and g: "GetLinkedAccount test_env test_store ''u1'' (TokenEncKeyB64 (cfg test_handler)) =
      Inl ''decrypt_failed''"
    by (simp_all add: test_defs)
  from g have h3:
    "(\<exists>err. GetLinkedAccount test_env test_store ''u1'' (TokenEncKeyB64 (cfg test_handler)) =
        Inl err) \<or>
     (\<exists>linkedAccount err.
        GetLinkedAccount test_env test_store ''u1'' (TokenEncKeyB64 (cfg test_handler)) =
          Inr linkedAccount \<and>
        GetUser test_env (AccessToken linkedAccount) = Inl err)"
    by blast
  have q: "QueryGithubAccount test_env test_store ''u1'' = (Some ''octo'', Some [])"
    "as_string (LocalUserID test_ctx) = ''u1''" "as_string (LocalRole test_ctx) = ''admin''"
    by (simp_all add: test_defs)
  show ?thesis
    using Me_degrades_to_cache [OF h1 h2 h3] h1 h2 g by (simp add: q)
qed

text \<open>
  C10. In the answer of \<^verbatim>\<open>Me\<close> for a user id that parses: when the provider returned a
  profile, each of \<^verbatim>\<open>name\<close>, \<^verbatim>\<open>email\<close>, \<^verbatim>\<open>location\<close>, \<^verbatim>\<open>bio\<close> and \<^verbatim>\<open>website\<close> is a key of
  the \<^verbatim>\<open>github\<close> object exactly when the provider's value is not empty, and then holds
  that value (\<^verbatim>\<open>login\<close> and \<^verbatim>\<open>avatar_url\<close> are copied as they are). On the fallback
  path the \<^verbatim>\<open>github\<close> object is there exactly when the cached row gave a login, and
  \<^verbatim>\<open>avatar_url\<close> is a key of it exactly when the cached avatar is there and not empty.
\<close>

theorem Me_omits_empty_fields:
  assumes "\<not> db_nil h"
    and "uuid_Parse e (as_string (LocalUserID c)) = Some userID"
  shows
    "(GetLinkedAccount e st userID (TokenEncKeyB64 (cfg h)) = Inr linkedAccount \<and>
      GetUser e (AccessToken linkedAccount) = Inr ghUser \<longrightarrow>
        subfield ''github'' ''login'' (body (fst (Me e h c st))) =
          Some (JStr (Login ghUser)) \<and>
        subfield ''github'' ''avatar_url'' (body (fst (Me e h c st))) =
          Some (JStr (AvatarURL ghUser)) \<and>
        subfield ''github'' ''name'' (body (fst (Me e h c st))) =
          (if Name ghUser = [] then None else Some (JStr (Name ghUser))) \<and>
        subfield ''github'' ''email'' (body (fst (Me e h c st))) =
          (if Email ghUser = [] then None else Some (JStr (Email ghUser))) \<and>
        subfield ''github'' ''location'' (body (fst (Me e h c st))) =
          (if Location ghUser = [] then None else Some (JStr (Location ghUser))) \<and>
        subfield ''github'' ''bio'' (body (fst (Me e h c st))) =
          (if Bio ghUser = [] then None else Some (JStr (Bio ghUser))) \<and>
        subfield ''github'' ''website'' (body (fst (Me e h c st))) =
          (if Blog ghUser = [] then None else Some (JStr (Blog ghUser)))) \<and>
     ((\<exists>err. GetLinkedAccount e st userID (TokenEncKeyB64 (cfg h)) = Inl err) \<or>
      (\<exists>la err. GetLinkedAccount e st userID (TokenEncKeyB64 (cfg h)) = Inr la \<and>
                GetUser e (AccessToken la) = Inl err) \<longrightarrow>
        (field ''github'' (body (fst (Me e h c st))) \<noteq> None) =
          (fst (QueryGithubAccount e st userID) \<noteq> None) \<and>
        subfield ''github'' ''login'' (body (fst (Me e h c st))) =
          map_option JStr (fst (QueryGithubAccount e st userID)) \<and>
        subfield ''github'' ''avatar_url'' (body (fst (Me e h c st))) =
          (case QueryGithubAccount e st userID of
             (Some login, Some a) \<Rightarrow> if a = [] then None else Some (JStr a)
           | _ \<Rightarrow> None))"
proof (intro conjI impI)
  assume p: "GetLinkedAccount e st userID (TokenEncKeyB64 (cfg h)) = Inr linkedAccount \<and>
      GetUser e (AccessToken linkedAccount) = Inr ghUser"
  note M = Me_provider [OF assms conjunct1 [OF p] conjunct2 [OF p]]
  show "subfield ''github'' ''login'' (body (fst (Me e h c st))) = Some (JStr (Login ghUser))"
    unfolding M by (simp add: subfield_def JSON_def github_profile_fields)
  show "subfield ''github'' ''avatar_url'' (body (fst (Me e h c st))) =
          Some (JStr (AvatarURL ghUser))"
    unfolding M by (simp add: subfield_def JSON_def github_profile_fields)
  show "subfield ''github'' ''name'' (body (fst (Me e h c st))) =
          (if Name ghUser = [] then None else Some (JStr (Name ghUser)))"
    unfolding M by (simp add: subfield_def JSON_def github_profile_fields)
  show "subfield ''github'' ''email'' (body (fst (Me e h c st))) =
          (if Email ghUser = [] then None else Some (JStr (Email ghUser)))"
    unfolding M by (simp add: subfield_def JSON_def github_profile_fields)
  show "subfield ''github'' ''location'' (body (fst (Me e h c st))) =
          (if Location ghUser = [] then None else Some (JStr (Location ghUser)))"
    unfolding M by (simp add: subfield_def JSON_def github_profile_fields)
  show "subfield ''github'' ''bio'' (body (fst (Me e h c st))) =
          (if Bio ghUser = [] then None else Some (JStr (Bio ghUser)))"
    unfolding M by (simp add: subfield_def JSON_def github_profile_fields)
  show "subfield ''github'' ''website'' (body (fst (Me e h c st))) =
          (if Blog ghUser = [] then None else Some (JStr (Blog ghUser)))"
    unfolding M by (simp add: subfield_def JSON_def github_profile_fields)
next
  assume f: "(\<exists>err. GetLinkedAccount e st userID (TokenEncKeyB64 (cfg h)) = Inl err) \<or>
      (\<exists>la err. GetLinkedAccount e st userID (TokenEncKeyB64 (cfg h)) = Inr la \<and>
                GetUser e (AccessToken la) = Inl err)"
  note M = Me_fallback [OF assms f]
  show "(field ''github'' (body (fst (Me e h c st))) \<noteq> None) =
          (fst (QueryGithubAccount e st userID) \<noteq> None)"
    unfolding M
    by (simp add: JSON_def cached_profile_fields split: prod.splits option.splits)
  show "subfield ''github'' ''login'' (body (fst (Me e h c st))) =
          map_option JStr (fst (QueryGithubAccount e st userID))"
    unfolding M
    by (simp add: subfield_def JSON_def cached_profile_fields split: prod.splits option.splits)
  show "subfield ''github'' ''avatar_url'' (body (fst (Me e h c st))) =
          (case QueryGithubAccount e st userID of
             (Some login, Some a) \<Rightarrow> if a = [] then None else Some (JStr a)
           | _ \<Rightarrow> None)"
    unfolding M
    by (simp add: subfield_def JSON_def cached_profile_fields split: prod.splits option.splits)
qed

theorem Me_omits_empty_fields_witness:
  "\<not> db_nil linked_handler \<and> \<not> db_nil test_handler \<and>
   uuid_Parse test_env (as_string (LocalUserID test_ctx)) = Some ''u1'' \<and>
   GetLinkedAccount test_env test_store ''u1'' (TokenEncKeyB64 (cfg linked_handler)) =
     Inr \<lparr>AccessToken = ''gho''\<rparr> \<and>
   subfield ''github'' ''name'' (body (fst (Me test_env linked_handler test_ctx test_store))) =
     Some (JStr ''Octo'') \<and>
   subfield ''github'' ''email'' (body (fst (Me test_env linked_handler test_ctx test_store))) =
     None \<and>
   subfield ''github'' ''bio'' (body (fst (Me test_env linked_handler test_ctx test_store))) =
     Some (JStr ''bio'') \<and>
   GetLinkedAccount test_env test_store ''u1'' (TokenEncKeyB64 (cfg test_handler)) =
     Inl ''decrypt_failed'' \<and>
   field ''github'' (body (fst (Me test_env test_handler test_ctx test_store))) \<noteq> None \<and>
   subfield ''github'' ''avatar_url'' (body (fst (Me test_env test_handler test_ctx test_store))) =
     None"
proof -
  have h1: "\<not> db_nil linked_handler" and h1': "\<not> db_nil test_handler"
    and h2: "uuid_Parse test_env (as_string (LocalUserID test_ctx)) = Some ''u1''"
    and g: "GetLinkedAccount test_env test_store ''u1'' (TokenEncKeyB64 (cfg linked_handler)) =
      Inr \<lparr>AccessToken = ''gho''\<rparr>"
    and g': "GetLinkedAccount test_env test_store ''u1'' (TokenEncKeyB64 (cfg test_handler)) =
      Inl ''decrypt_failed''"
    by (simp_all add: test_defs)
  have u: "GetUser test_env (AccessToken \<lparr>AccessToken = ''gho''\<rparr>) =
      Inr \<lparr>Login = ''octo'', AvatarURL = ''a.png'', Name = ''Octo'', Email = [],
           Location = [], Bio = ''bio'', Blog = []\<rparr>"
    and q: "QueryGithubAccount test_env test_store ''u1'' = (Some ''octo'', Some [])"
    by (simp_all add: test_defs)
  note a = Me_omits_empty_fields [OF h1 h2, of test_store "\<lparr>AccessToken = ''gho''\<rparr>"
      "\<lparr>Login = ''octo'', AvatarURL = ''a.png'', Name = ''Octo'', Email = [],
        Location = [], Bio = ''bio'', Blog = []\<rparr>"]
  note b = Me_omits_empty_fields [OF h1' h2, of test_store]
  show ?thesis
    using a b h1 h1' h2 g g' u by (simp add: q)
qed

section \<open>Properties of \<^verbatim>\<open>Verify\<close> over the transaction of the spec\<close>

lemma consumed_not_live: "consumed st tok \<Longrightarrow> \<not> live st wType addr tok"
  by (simp add: consumed_def live_def split: option.splits)

lemma nonces_keep_public_key [simp]:
  "nonces (keep_public_key pol wType addr pk st) = nonces st"
  by (simp add: keep_public_key_def)

lemma nonces_spec:
  "nonces (snd (ConsumeNonceAndUpsertUser_spec pol st wType addr tok pk)) =
     (if \<not> unavailable st \<and> live st wType addr tok then nonces (mark_consumed tok st)
      else nonces st)"
  by (simp add: ConsumeNonceAndUpsertUser_spec_def Let_def split: option.splits)

lemma consumed_mark_consumed: "consumed st tok \<Longrightarrow> consumed (mark_consumed tok' st) tok"
  by (auto simp add: consumed_def mark_consumed_def split: option.splits)

lemma spec_keeps_consumed:
  assumes "consumed st tok"
  shows "consumed (snd (ConsumeNonceAndUpsertUser_spec pol st wType addr tok' pk)) tok"
proof (cases "\<not> unavailable st \<and> live st wType addr tok'")
  case True
  then have "nonces (snd (ConsumeNonceAndUpsertUser_spec pol st wType addr tok' pk)) =
      nonces (mark_consumed tok' st)"
    by (simp add: nonces_spec)
  then show ?thesis
    using consumed_mark_consumed [OF assms] by (simp add: consumed_def)
next
  case False
  then have "nonces (snd (ConsumeNonceAndUpsertUser_spec pol st wType addr tok' pk)) = nonces st"
    by (auto simp add: nonces_spec)
  then show ?thesis using assms by (simp add: consumed_def)
qed

lemma spec_success_consumes:
  assumes "fst (ConsumeNonceAndUpsertUser_spec pol st wType addr tok pk) = Inr res"
  shows "consumed (snd (ConsumeNonceAndUpsertUser_spec pol st wType addr tok pk)) tok"
proof -
  have l: "\<not> unavailable st \<and> live st wType addr tok"
    using assms
    by (auto simp add: ConsumeNonceAndUpsertUser_spec_def split: if_splits)
  then have "nonces (snd (ConsumeNonceAndUpsertUser_spec pol st wType addr tok pk)) =
      nonces (mark_consumed tok st)"
    by (simp add: nonces_spec)
  moreover have "consumed (mark_consumed tok st) tok"
    using l by (auto simp add: consumed_def mark_consumed_def live_def split: option.splits)
  ultimately show ?thesis by (simp add: consumed_def)
qed

text \<open>The wallet link the transaction returns is the one of the pair it was called with.\<close>

lemma spec_result_wallet:
  assumes "fst (ConsumeNonceAndUpsertUser_spec pol st wType addr tok pk) = Inr res"
  shows "Wallet res = \<lparr>w_WalletType = wType, w_Address = addr\<rparr>"
  using assms
  by (auto simp add: ConsumeNonceAndUpsertUser_spec_def Let_def split: if_splits option.splits)

text \<open>The user it returns is the one of the existing link, else the new one.\<close>

lemma spec_result_user:
  assumes "fst (ConsumeNonceAndUpsertUser_spec pol st wType addr tok pk) = Inr res"
  shows "User res =
    (case links st (wType, addr) of
       Some u \<Rightarrow> u
     | None \<Rightarrow> new_user pol (mark_consumed tok st))"
proof -
  have l: "links (mark_consumed tok st) = links st"
    by (simp add: mark_consumed_def split: option.splits)
  show ?thesis
    using assms
    by (auto simp add: ConsumeNonceAndUpsertUser_spec_def Let_def l
        split: if_splits option.splits)
qed

lemma spec_dead:
  assumes "\<not> live st wType addr tok"
  shows "ConsumeNonceAndUpsertUser_spec pol st wType addr tok pk =
    (Inl (if unavailable st then ''storage_unavailable'' else ''invalid_or_expired_nonce''), st)"
  using assms by (simp add: ConsumeNonceAndUpsertUser_spec_def)

text \<open>The storage state after Verify: untouched, or what the transaction left.\<close>

lemma Verify_store:
  "fst (snd (Verify e h parsed st)) = st \<or>
   (\<exists>req wType addr. parsed = Some req \<and>
      fst (snd (Verify e h parsed st)) =
        snd (ConsumeNonceAndUpsertUser e st wType addr (Nonce req) (PublicKey req)))"
proof -
  have c: "\<exists>wType addr. st' = snd (ConsumeNonceAndUpsertUser e st wType addr tok pk)"
    if "ConsumeNonceAndUpsertUser e st w a tok pk = (r, st')" for w a tok pk r st'
    using that by (metis snd_conv)
  show ?thesis
    by (auto simp add: Verify_def split: option.splits sum.splits prod.splits dest: c)
qed

lemma Verify_ok:
  assumes "status (fst (Verify e h (Some req) st)) = StatusOK"
  shows "\<exists>wType addr res.
      fst (ConsumeNonceAndUpsertUser e st wType addr (Nonce req) (PublicKey req)) = Inr res \<and>
      fst (snd (Verify e h (Some req) st)) =
        snd (ConsumeNonceAndUpsertUser e st wType addr (Nonce req) (PublicKey req))"
    and "Nonce req \<noteq> []"
  using assms
  apply (auto simp add: Verify_def error_response_def JSON_def
        split: option.splits sum.splits prod.splits if_splits)
  apply (metis fst_conv snd_conv)
  done

lemma Verify_no_token:
  assumes "\<And>wType addr.
    \<exists>err. fst (ConsumeNonceAndUpsertUser e st wType addr (Nonce req) (PublicKey req)) = Inl err"
  shows "status (fst (Verify e h (Some req) st)) \<noteq> StatusOK \<and>
         token_of (fst (Verify e h (Some req) st)) = None \<and>
         \<not> list_ex issue_call (snd (snd (Verify e h (Some req) st)))"
proof -
  have "\<not> list_ex issue_call (snd (sig_loop e w a s pk ms))" for w a s pk ms
    by (rule sig_loop_only_verifies)
  then have n: "\<not> list_ex issue_call vs" if "sig_loop e w a s pk ms = (b, vs)"
    for w a s pk ms b vs
    using that by (metis snd_conv)
  have c: "ConsumeNonceAndUpsertUser e st w a (Nonce req) (PublicKey req) \<noteq> (Inr r, s)"
    for w a r s
    using assms [of w a] by auto
  show ?thesis
    by (auto simp add: Verify_def error_response_def JSON_def token_of_def c
      split: option.splits sum.splits prod.splits dest: n)
qed


lemma step_keeps_consumed:
  assumes "ConsumeNonceAndUpsertUser e = ConsumeNonceAndUpsertUser_spec pol"
    and "consumed st tok"
  shows "consumed (step e ev st) tok"
proof (cases ev)
  case (Attempt h parsed)
  from Verify_store [of e h parsed st] show ?thesis
    using assms spec_keeps_consumed [OF assms(2)] by (auto simp add: Attempt)
next
  case (Clock t)
  then show ?thesis using assms(2) by (simp add: consumed_def)
next
  case (Outage b)
  then show ?thesis using assms(2) by (simp add: consumed_def)
qed

lemma run_keeps_consumed:
  assumes "ConsumeNonceAndUpsertUser e = ConsumeNonceAndUpsertUser_spec pol"
  shows "consumed st tok \<Longrightarrow> consumed (run e evs st) tok"
proof (induction evs arbitrary: st)
  case Nil
  then show ?case by simp
next
  case (Cons ev evs)
  from Cons.prems have "consumed (step e ev st) tok"
    by (rule step_keeps_consumed [OF assms])
  then show ?case by (simp add: Cons.IH)
qed

text \<open>
  C1. Let a login attempt succeed (status 200) with some nonce token, and let any
  sequence of further attempts, clock changes and storage outages follow. Then an attempt
  that presents the same token, through any handler value and with any other fields,
  does not succeed: its status is not 200, its answer carries no token, no token is
  signed, and the nonce stays consumed. Where this attempt passes the checks that come
  before the transaction (handler configured, wallet type and address normalized,
  signature present and accepted over one of the two renderings) and the storage is
  available, the answer is 401 \<^verbatim>\<open>invalid_or_expired_nonce\<close>.
\<close>

theorem replay_rejected:
  assumes spec: "ConsumeNonceAndUpsertUser e = ConsumeNonceAndUpsertUser_spec pol"
    and first: "status (fst (Verify e h (Some req) st)) = StatusOK"
    and later: "st' = run e evs (fst (snd (Verify e h (Some req) st)))"
    and same: "Nonce req' = Nonce req"
  shows
    "status (fst (Verify e h' (Some req') st')) \<noteq> StatusOK \<and>
     token_of (fst (Verify e h' (Some req') st')) = None \<and>
     \<not> list_ex issue_call (snd (snd (Verify e h' (Some req') st'))) \<and>
     consumed (fst (snd (Verify e h' (Some req') st'))) (Nonce req) \<and>
     (\<not> db_nil h' \<and> JWTSecret (cfg h') \<noteq> [] \<and>
      NormalizeWalletType e (WalletType req') = Inr wType \<and>
      NormalizeAddress e wType (Address req') = Inr addr \<and>
      Signature req' \<noteq> [] \<and>
      (accepted e wType addr req' (LoginMessage e (Nonce req')) \<or>
       accepted e wType addr req' (LegacyLoginMessage e (Nonce req'))) \<and>
      \<not> unavailable st' \<longrightarrow>
        fst (Verify e h' (Some req') st') =
          error_response StatusUnauthorized ''invalid_or_expired_nonce'')"
proof -
  from Verify_ok [OF first] obtain w a res where
    "fst (ConsumeNonceAndUpsertUser e st w a (Nonce req) (PublicKey req)) = Inr res"
    and "fst (snd (Verify e h (Some req) st)) =
      snd (ConsumeNonceAndUpsertUser e st w a (Nonce req) (PublicKey req))"
    and ne: "Nonce req \<noteq> []"
    by blast
  then have "consumed (fst (snd (Verify e h (Some req) st))) (Nonce req)"
    using spec_success_consumes [of pol st w a "Nonce req" "PublicKey req" res]
    by (simp add: spec)
  then have c: "consumed st' (Nonce req)"
    unfolding later by (rule run_keeps_consumed [OF spec])
  then have dead: "\<not> live st' wt ad (Nonce req')" for wt ad
    by (simp add: same consumed_not_live)
  have failing:
    "\<exists>err. fst (ConsumeNonceAndUpsertUser e st' wt ad (Nonce req') (PublicKey req')) = Inl err"
    for wt ad
    by (simp add: spec spec_dead [OF dead])
  note no = Verify_no_token [of e st' req' h', OF failing]
  have after: "consumed (fst (snd (Verify e h' (Some req') st'))) (Nonce req)"
    using Verify_store [of e h' "Some req'" st'] c spec_keeps_consumed [OF c]
    by (auto simp add: spec)
  have code: "fst (Verify e h' (Some req') st') =
      error_response StatusUnauthorized ''invalid_or_expired_nonce''"
    if r: "\<not> db_nil h'" "JWTSecret (cfg h') \<noteq> []"
      "NormalizeWalletType e (WalletType req') = Inr wType"
      "NormalizeAddress e wType (Address req') = Inr addr"
      "Signature req' \<noteq> []"
      and ok: "accepted e wType addr req' (LoginMessage e (Nonce req')) \<or>
        accepted e wType addr req' (LegacyLoginMessage e (Nonce req'))"
      and up: "\<not> unavailable st'"
  proof -
    have n: "Nonce req' \<noteq> []" using ne by (simp add: same)
    show ?thesis
      unfolding Verify_checked [OF r(1-4) n r(5)] sig_loop_msgs
      using ok up by (auto simp add: spec spec_dead [OF dead])
  qed
  from no after code show ?thesis by blast
qed

lemma test_login:
  "Verify test_env test_handler (Some test_request) test_store =
    (JSON StatusOK
       [(''token'', JStr ''jwt u1''),
        (''user'', JUser \<lparr>ID = ''u1'', Role = ''contributor'', CreatedAt = 100\<rparr>),
        (''wallet'', JObj [(''wallet_type'', JStr ''evm''), (''address'', JStr ''0xab'')])],
     test_store
       \<lparr>nonces := [''n7'' \<mapsto> \<lparr>row_WalletType = ''evm'', row_Address = ''0xab'',
                            row_CreatedAt = 90, row_ExpiresAt = 690, row_Consumed = True\<rparr>],
        users := [\<lparr>ID = ''u1'', Role = ''contributor'', CreatedAt = 100\<rparr>],
        links := [(''evm'', ''0xab'') \<mapsto> \<lparr>ID = ''u1'', Role = ''contributor'', CreatedAt = 100\<rparr>]\<rparr>,
     [Call_VerifySignature ''evm'' ''0xab'' ''login n7'' ''sig legacy n7'' [],
      Call_VerifySignature ''evm'' ''0xab'' ''legacy n7'' ''sig legacy n7'' [],
      Call_ConsumeNonceAndUpsertUser ''evm'' ''0xab'' ''n7'' [],
      Call_IssueJWT ''s3cret'' ''u1'' ''contributor'' ''evm'' ''0xab'' 900000000000])"
  by (simp add: Verify_def test_defs)

theorem replay_rejected_witness:
  "ConsumeNonceAndUpsertUser test_env = ConsumeNonceAndUpsertUser_spec test_policy \<and>
   status (fst (Verify test_env test_handler (Some test_request) test_store)) = StatusOK \<and>
   Nonce (test_request\<lparr>Signature := ''sig login n7''\<rparr>) = Nonce test_request \<and>
   accepted test_env ''evm'' ''0xab'' (test_request\<lparr>Signature := ''sig login n7''\<rparr>) ''login n7'' \<and>
   fst (Verify test_env linked_handler (Some (test_request\<lparr>Signature := ''sig login n7''\<rparr>))
          (run test_env [Clock 200, Attempt test_handler None]
             (fst (snd (Verify test_env test_handler (Some test_request) test_store))))) =
     error_response StatusUnauthorized ''invalid_or_expired_nonce''"
proof -
  let ?r = "test_request\<lparr>Signature := ''sig login n7''\<rparr>"
  let ?evs = "[Clock 200, Attempt test_handler None]"
  let ?st = "run test_env ?evs (fst (snd (Verify test_env test_handler (Some test_request) test_store)))"
  have spec: "ConsumeNonceAndUpsertUser test_env = ConsumeNonceAndUpsertUser_spec test_policy"
    by (simp add: test_defs)
  have first: "status (fst (Verify test_env test_handler (Some test_request) test_store)) = StatusOK"
    by (simp add: test_login JSON_def)
  have same: "Nonce ?r = Nonce test_request" by simp
  have up: "\<not> unavailable ?st"
    by (simp add: test_login) (simp add: Verify_def test_defs)
  have r: "\<not> db_nil linked_handler" "JWTSecret (cfg linked_handler) \<noteq> []"
      "NormalizeWalletType test_env (WalletType ?r) = Inr ''evm''"
      "NormalizeAddress test_env ''evm'' (Address ?r) = Inr ''0xab''"
      "Signature ?r \<noteq> []"
      "accepted test_env ''evm'' ''0xab'' ?r (LoginMessage test_env (Nonce ?r))"
    by (simp_all add: test_defs)
  have m: "LoginMessage test_env (Nonce ?r) = ''login n7''" by (simp add: test_defs)
  show ?thesis
    using replay_rejected [OF spec first refl same, of linked_handler ?evs "''evm''" "''0xab''"]
      spec first same up r
    unfolding m by simp
qed

text \<open>
  C5. For a request that has passed the signature check, when the nonce row is absent,
  belongs to another wallet identity, is already consumed or is past its expiry, the
  transaction fails and the handler answers 401 \<^verbatim>\<open>invalid_or_expired_nonce\<close>, a code
  different from the 500 \<^verbatim>\<open>auth_failed\<close> it gives when the storage itself fails. The
  storage state is unchanged, the answer carries no token and no token is signed.
\<close>

theorem Verify_dead_nonce:
  assumes spec: "ConsumeNonceAndUpsertUser e = ConsumeNonceAndUpsertUser_spec pol"
    and "\<not> db_nil h" and "JWTSecret (cfg h) \<noteq> []"
    and "NormalizeWalletType e (WalletType req) = Inr wType"
    and "NormalizeAddress e wType (Address req) = Inr addr"
    and "Nonce req \<noteq> []" and "Signature req \<noteq> []"
    and ok: "accepted e wType addr req (LoginMessage e (Nonce req)) \<or>
         accepted e wType addr req (LegacyLoginMessage e (Nonce req))"
    and dead: "nonces st (Nonce req) = None \<or>
         (\<exists>row. nonces st (Nonce req) = Some row \<and>
            (row_WalletType row \<noteq> wType \<or> row_Address row \<noteq> addr \<or>
             row_Consumed row \<or> row_ExpiresAt row < clock st))"
  shows
    "fst (Verify e h (Some req) st) =
       (if unavailable st then error_response StatusInternalServerError ''auth_failed''
        else error_response StatusUnauthorized ''invalid_or_expired_nonce'') \<and>
     error_response StatusUnauthorized ''invalid_or_expired_nonce'' \<noteq>
       error_response StatusInternalServerError ''auth_failed'' \<and>
     fst (snd (Verify e h (Some req) st)) = st \<and>
     token_of (fst (Verify e h (Some req) st)) = None \<and>
     \<not> list_ex issue_call (snd (snd (Verify e h (Some req) st)))"
proof -
  from dead have d: "\<not> live st wType addr (Nonce req)"
    by (auto simp add: live_def)
  have V: "Verify e h (Some req) st =
     (if unavailable st then error_response StatusInternalServerError ''auth_failed''
      else error_response StatusUnauthorized ''invalid_or_expired_nonce'', st,
      snd (sig_loop e wType addr (Signature req) (PublicKey req) (msgs e req)) @
      [Call_ConsumeNonceAndUpsertUser wType addr (Nonce req) (PublicKey req)])"
    unfolding Verify_checked [OF assms(2-7)] sig_loop_msgs
    using ok by (auto simp add: spec spec_dead [OF d])
  show ?thesis
    unfolding V
    using sig_loop_only_verifies(2) [of e wType addr "Signature req" "PublicKey req" "msgs e req"]
    by (simp add: token_of_def error_response_def JSON_def)
qed

theorem Verify_dead_nonce_witness:
  "ConsumeNonceAndUpsertUser test_env = ConsumeNonceAndUpsertUser_spec test_policy \<and>
   \<not> db_nil test_handler \<and> JWTSecret (cfg test_handler) \<noteq> [] \<and>
   NormalizeWalletType test_env (WalletType test_request) = Inr ''evm'' \<and>
   NormalizeAddress test_env ''evm'' (Address test_request) = Inr ''0xab'' \<and>
   Nonce test_request \<noteq> [] \<and> Signature test_request \<noteq> [] \<and>
   accepted test_env ''evm'' ''0xab'' test_request ''legacy n7'' \<and>
   row_ExpiresAt (the (nonces (test_store\<lparr>clock := 700\<rparr>) (Nonce test_request))) <
     clock (test_store\<lparr>clock := 700\<rparr>) \<and>
   fst (Verify test_env test_handler (Some test_request) (test_store\<lparr>clock := 700\<rparr>)) =
     error_response StatusUnauthorized ''invalid_or_expired_nonce'' \<and>
   token_of (fst (Verify test_env test_handler (Some test_request) (test_store\<lparr>clock := 700\<rparr>))) =
     None"
proof -
  let ?st = "test_store\<lparr>clock := 700\<rparr>"
  have spec: "ConsumeNonceAndUpsertUser test_env = ConsumeNonceAndUpsertUser_spec test_policy"
    by (simp add: test_defs)
  have h1: "\<not> db_nil test_handler" and h2: "JWTSecret (cfg test_handler) \<noteq> []"
    and h3: "NormalizeWalletType test_env (WalletType test_request) = Inr ''evm''"
    and h4: "NormalizeAddress test_env ''evm'' (Address test_request) = Inr ''0xab''"
    and h5: "Nonce test_request \<noteq> []" and h6: "Signature test_request \<noteq> []"
    by (simp_all add: test_defs)
  have b: "accepted test_env ''evm'' ''0xab'' test_request
              (LegacyLoginMessage test_env (Nonce test_request))"
    by (simp add: test_defs)
  then have h7: "accepted test_env ''evm'' ''0xab'' test_request
              (LoginMessage test_env (Nonce test_request)) \<or>
            accepted test_env ''evm'' ''0xab'' test_request
              (LegacyLoginMessage test_env (Nonce test_request))" ..
  have x: "row_ExpiresAt (the (nonces ?st (Nonce test_request))) < clock ?st"
    and y: "nonces ?st (Nonce test_request) \<noteq> None"
    by (simp_all add: test_defs)
  then have h8: "nonces ?st (Nonce test_request) = None \<or>
         (\<exists>row. nonces ?st (Nonce test_request) = Some row \<and>
            (row_WalletType row \<noteq> ''evm'' \<or> row_Address row \<noteq> ''0xab'' \<or>
             row_Consumed row \<or> row_ExpiresAt row < clock ?st))"
    by auto
  have m: "LegacyLoginMessage test_env (Nonce test_request) = ''legacy n7''"
    and u: "\<not> unavailable ?st"
    by (simp_all add: test_defs)
  show ?thesis
    using Verify_dead_nonce [OF spec h1 h2 h3 h4 h5 h6 h7 h8] spec h1 h2 h3 h4 h5 h6 b x u
    unfolding m by (simp add: token_of_def error_response_def JSON_def)
qed

text \<open>
  C6. When a request has passed the signature check and the transaction of the spec has
  consumed its nonce and returned a user and a wallet link, that user is the one of the
  existing link for the normalized wallet type and address, else the user created for
  them, and the link is the one of that normalized pair. The handler signs exactly one
  token, with the configured secret, the id and role of that user, the normalized wallet
  type and address and a lifetime of fifteen minutes. The storage state is the one the
  transaction left. The answer is 200 with the token, the user and the normalized wallet
  identity when the signing returns a token, and 500 \<^verbatim>\<open>token_issue_failed\<close> when the
  signing fails.
\<close>

theorem Verify_issues_token:
  assumes spec: "ConsumeNonceAndUpsertUser e = ConsumeNonceAndUpsertUser_spec pol"
    and "\<not> db_nil h" and "JWTSecret (cfg h) \<noteq> []"
    and "NormalizeWalletType e (WalletType req) = Inr wType"
    and "NormalizeAddress e wType (Address req) = Inr addr"
    and "Nonce req \<noteq> []" and "Signature req \<noteq> []"
    and "accepted e wType addr req (LoginMessage e (Nonce req)) \<or>
         accepted e wType addr req (LegacyLoginMessage e (Nonce req))"
    and "ConsumeNonceAndUpsertUser e st wType addr (Nonce req) (PublicKey req) = (Inr res, st')"
  shows
    "User res =
       (case links st (wType, addr) of
          Some u \<Rightarrow> u
        | None \<Rightarrow> new_user pol (mark_consumed (Nonce req) st)) \<and>
     Wallet res = \<lparr>w_WalletType = wType, w_Address = addr\<rparr> \<and>
     filter issue_call (snd (snd (Verify e h (Some req) st))) =
       [Call_IssueJWT (JWTSecret (cfg h)) (ID (User res)) (Role (User res)) wType addr
          (15 * Minute)] \<and>
     fst (snd (Verify e h (Some req) st)) = st' \<and>
     fst (Verify e h (Some req) st) =
       (case IssueJWT e (JWTSecret (cfg h)) (ID (User res)) (Role (User res)) wType addr
               (15 * Minute) of
          Inl err \<Rightarrow> error_response StatusInternalServerError ''token_issue_failed''
        | Inr token \<Rightarrow>
            JSON StatusOK
              [(''token'', JStr token),
               (''user'', JUser (User res)),
               (''wallet'',
                JObj [(''wallet_type'', JStr wType), (''address'', JStr addr)])])"
proof -
  have f: "fst (ConsumeNonceAndUpsertUser_spec pol st wType addr (Nonce req) (PublicKey req)) =
      Inr res"
    using assms(9) by (simp add: spec)
  have w: "w_WalletType (Wallet res) = wType" "w_Address (Wallet res) = addr"
    and w': "Wallet res = \<lparr>w_WalletType = wType, w_Address = addr\<rparr>"
    by (simp_all add: spec_result_wallet [OF f])
  note u = spec_result_user [OF f]
  note V = Verify_after_transaction [OF assms(2-9), unfolded w]
  from u w' V show ?thesis by blast
qed

theorem Verify_issues_token_witness:
  "ConsumeNonceAndUpsertUser test_env = ConsumeNonceAndUpsertUser_spec test_policy \<and>
   \<not> db_nil test_handler \<and> JWTSecret (cfg test_handler) \<noteq> [] \<and>
   NormalizeWalletType test_env (WalletType test_request) = Inr ''evm'' \<and>
   NormalizeAddress test_env ''evm'' (Address test_request) = Inr ''0xab'' \<and>
   Nonce test_request \<noteq> [] \<and> Signature test_request \<noteq> [] \<and>
   accepted test_env ''evm'' ''0xab'' test_request
     (LegacyLoginMessage test_env (Nonce test_request)) \<and>
   fst (ConsumeNonceAndUpsertUser test_env test_store ''evm'' ''0xab'' (Nonce test_request)
          (PublicKey test_request)) =
     Inr \<lparr>User = \<lparr>ID = ''u1'', Role = ''contributor'', CreatedAt = 100\<rparr>,
          Wallet = \<lparr>w_WalletType = ''evm'', w_Address = ''0xab''\<rparr>\<rparr> \<and>
   filter issue_call (snd (snd (Verify test_env test_handler (Some test_request) test_store))) =
     [Call_IssueJWT ''s3cret'' ''u1'' ''contributor'' ''evm'' ''0xab'' 900000000000] \<and>
   fst (Verify test_env test_handler (Some test_request) test_store) =
     JSON StatusOK
       [(''token'', JStr ''jwt u1''),
        (''user'', JUser \<lparr>ID = ''u1'', Role = ''contributor'', CreatedAt = 100\<rparr>),
        (''wallet'', JObj [(''wallet_type'', JStr ''evm''), (''address'', JStr ''0xab'')])]"
proof -
  let ?res = "\<lparr>User = \<lparr>ID = ''u1'', Role = ''contributor'', CreatedAt = 100\<rparr>,
          Wallet = \<lparr>w_WalletType = ''evm'', w_Address = ''0xab''\<rparr>\<rparr>"
  let ?st = "snd (ConsumeNonceAndUpsertUser test_env test_store ''evm'' ''0xab''
     (Nonce test_request) (PublicKey test_request))"
  have spec: "ConsumeNonceAndUpsertUser test_env = ConsumeNonceAndUpsertUser_spec test_policy"
    by (simp add: test_defs)
  have h1: "\<not> db_nil test_handler" and h2: "JWTSecret (cfg test_handler) \<noteq> []"
    and h3: "NormalizeWalletType test_env (WalletType test_request) = Inr ''evm''"
    and h4: "NormalizeAddress test_env ''evm'' (Address test_request) = Inr ''0xab''"
    and h5: "Nonce test_request \<noteq> []" and h6: "Signature test_request \<noteq> []"
    by (simp_all add: test_defs)
  have b: "accepted test_env ''evm'' ''0xab'' test_request
              (LegacyLoginMessage test_env (Nonce test_request))"
    by (simp add: test_defs)
  then have h7: "accepted test_env ''evm'' ''0xab'' test_request
              (LoginMessage test_env (Nonce test_request)) \<or>
            accepted test_env ''evm'' ''0xab'' test_request
              (LegacyLoginMessage test_env (Nonce test_request))" ..
  have f: "fst (ConsumeNonceAndUpsertUser test_env test_store ''evm'' ''0xab''
     (Nonce test_request) (PublicKey test_request)) = Inr ?res"
    by (simp add: test_defs)
  then have h8: "ConsumeNonceAndUpsertUser test_env test_store ''evm'' ''0xab''
     (Nonce test_request) (PublicKey test_request) = (Inr ?res, ?st)"
    by (simp add: prod_eq_iff)
  have j: "IssueJWT test_env = (\<lambda>secret uid role wType addr ttl. Inr (''jwt '' @ uid))"
     "JWTSecret (cfg test_handler) = ''s3cret''"
    by (simp_all add: test_defs)
  show ?thesis
    using Verify_issues_token [OF spec h1 h2 h3 h4 h5 h6 h7 h8] spec h1 h2 h3 h4 h5 h6 b f
    by (simp add: j)
qed

end
